theory Spec2Isabelle
  imports Main
begin

section \<open>Python values used by the function app\<close>

text \<open>
  The repository is a Python Azure Function: \<^verbatim>\<open>function_app.py\<close> holds the HTTP
  trigger and \<^verbatim>\<open>key_vault.py\<close> the credential, secret and storage helpers.  The
  services they talk to (the identity chain, Key Vault, the flights API, Blob Storage, the
  clock, the process environment) are parameters of the model, collected in the record
  \<open>world\<close>; what the process itself remembers between calls (the two \<^verbatim>\<open>functools.cache\<close>
  caches) and the calls it has sent out are the record \<open>proc\<close>, passed through every
  function.

  Every raise of the source is a value: a function that can raise returns \<open>exn + 'a\<close>,
  with \<open>Inl\<close> the exception that leaves the function.  An exception carries the class
  that the \<^verbatim>\<open>except\<close> clauses of the source test for and the text \<^verbatim>\<open>str(e)\<close>.  All three
  classes are subclasses of \<^verbatim>\<open>Exception\<close>; \<open>OtherException\<close> stands for every subclass
  of \<^verbatim>\<open>Exception\<close> that is neither a \<^verbatim>\<open>KeyError\<close> nor an \<^verbatim>\<open>httpx.HTTPError\<close>
  (\<^verbatim>\<open>ResourceNotFoundError\<close>, \<^verbatim>\<open>UnicodeEncodeError\<close>, \<^verbatim>\<open>httpx.InvalidURL\<close>, ...).
  Interpreter signals outside \<^verbatim>\<open>Exception\<close> (\<^verbatim>\<open>KeyboardInterrupt\<close>, \<^verbatim>\<open>SystemExit\<close>) are not
  outcomes of any service and are not modelled.  Logging has no effect on results and is
  left out.
\<close>

datatype exn_class = KeyError | HTTPError | OtherException

datatype exn = Exn (cls: exn_class) (msg: string)

text \<open>\<^verbatim>\<open>except KeyError\<close>, \<^verbatim>\<open>except httpx.HTTPError\<close> and \<^verbatim>\<open>except Exception\<close>.\<close>

definition is_KeyError :: "exn \<Rightarrow> bool" where
  "is_KeyError e = (cls e = KeyError)"

definition is_HTTPError :: "exn \<Rightarrow> bool" where
  "is_HTTPError e = (cls e = HTTPError)"

definition is_Exception :: "exn \<Rightarrow> bool" where
  "is_Exception e = (cls e = KeyError \<or> cls e = HTTPError \<or> cls e = OtherException)"

subsection \<open>Text and its encoding\<close>

text \<open>
  A Python \<^verbatim>\<open>str\<close> is a \<open>string\<close> here.  A character below \<^verbatim>\<open>0x80\<close> is that ASCII
  character.  A character \<open>c\<close> from \<^verbatim>\<open>0x80\<close> up stands for the lone surrogate
  \<^verbatim>\<open>U+DC00 + c\<close>: what \<^verbatim>\<open>os.environ\<close> makes of an undecodable byte (\<^verbatim>\<open>surrogateescape\<close>),
  and the kind of character that \<^verbatim>\<open>str.encode('utf-8')\<close> refuses.  Other non-ASCII
  characters encode as ASCII ones do and are none of them a slash, so they behave as ASCII
  letters in every operation of this program and have no representative of their own.
\<close>

definition encodable_char :: "char \<Rightarrow> bool" where
  "encodable_char c = (\<not> digit7 c)"

definition utf8_encodable :: "string \<Rightarrow> bool" where
  "utf8_encodable s = list_all encodable_char s"

definition digit :: "nat \<Rightarrow> char" where
  "digit n = ''0123456789'' ! (n mod 10)"

definition hex_digit :: "nat \<Rightarrow> char" where
  "hex_digit n = ''0123456789abcdef'' ! (n mod 16)"

text \<open>\<^verbatim>\<open>%zd\<close> of a position: decimal digits, no padding.\<close>

function decimal :: "nat \<Rightarrow> string" where
  "decimal n = (if n < 10 then [digit n] else decimal (n div 10) @ [digit n])"
  by pat_completeness auto
termination
  by (relation "measure id") auto

text \<open>
  \<^verbatim>\<open>str\<close> of the \<^verbatim>\<open>UnicodeEncodeError\<close> that \<^verbatim>\<open>s.encode('utf-8')\<close> raises.  CPython reports
  the first run of surrogates: one character as
  \<^verbatim>\<open>'utf-8' codec can't encode character '\udcXX' in position N: surrogates not allowed\<close>,
  a longer run as
  \<^verbatim>\<open>'utf-8' codec can't encode characters in position N-M: surrogates not allowed\<close>.
\<close>

definition surrogate_escape :: "char \<Rightarrow> string" where
  "surrogate_escape c =
     [CHR 0x5C] @ ''udc'' @ [hex_digit (of_char c div 16), hex_digit (of_char c)]"

definition unicode_encode_error :: "string \<Rightarrow> exn" where
  "unicode_encode_error s =
     (let start = length (takeWhile encodable_char s);
          run = takeWhile (\<lambda>c. \<not> encodable_char c) (drop start s);
          codec = [CHR 0x27] @ ''utf-8'' @ [CHR 0x27] @ '' codec can'' @ [CHR 0x27] @ ''t encode ''
      in Exn OtherException
           (if length run = 1
            then codec @ ''character '' @ [CHR 0x27] @ surrogate_escape (hd run) @ [CHR 0x27]
                 @ '' in position '' @ decimal start @ '': surrogates not allowed''
            else codec @ ''characters in position '' @ decimal start @ ''-''
                 @ decimal (start + length run - 1) @ '': surrogates not allowed''))"

text \<open>\<^verbatim>\<open>s.encode('utf-8')\<close>: the bytes, or the error.  The bytes of encodable text are the
  text itself.\<close>

definition str_encode :: "string \<Rightarrow> exn + string" where
  "str_encode s = (if utf8_encodable s then Inr s else Inl (unicode_encode_error s))"

subsection \<open>Environment, formatting, stripping, time\<close>

text \<open>
  \<^verbatim>\<open>os.environ[k]\<close> raises \<^verbatim>\<open>KeyError(k)\<close> when \<open>k\<close> is unset, and \<^verbatim>\<open>str\<close> of that
  exception is \<^verbatim>\<open>repr(k)\<close>: the key between single quotes (every key the source looks up
  is a plain identifier, so no character of it is escaped).  \<^verbatim>\<open>os.getenv(k, d)\<close> never
  raises.
\<close>

definition py_repr :: "string \<Rightarrow> string" where
  "py_repr k = CHR 0x27 # k @ [CHR 0x27]"

definition environ_getitem :: "(string \<Rightarrow> string option) \<Rightarrow> string \<Rightarrow> exn + string" where
  "environ_getitem env k =
     (case env k of None \<Rightarrow> Inl (Exn KeyError (py_repr k)) | Some v \<Rightarrow> Inr v)"

definition getenv :: "(string \<Rightarrow> string option) \<Rightarrow> string \<Rightarrow> string \<Rightarrow> string" where
  "getenv env k d = (case env k of None \<Rightarrow> d | Some v \<Rightarrow> v)"

text \<open>
  A replacement field of an f-string formats its value with \<^verbatim>\<open>format(v, '')\<close>: a string
  is inserted as it is, and \<^verbatim>\<open>None\<close> as the four characters \<^verbatim>\<open>None\<close>.
\<close>

definition py_format :: "string option \<Rightarrow> string" where
  "py_format v = (case v of None \<Rightarrow> ''None'' | Some s \<Rightarrow> s)"

text \<open>\<^verbatim>\<open>s.rstrip(chars)\<close> removes every trailing character that occurs in \<open>chars\<close>.\<close>

definition rstrip :: "string \<Rightarrow> string \<Rightarrow> string" where
  "rstrip s chars = rev (dropWhile (\<lambda>c. c \<in> set chars) (rev s))"

text \<open>
  \<^verbatim>\<open>datetime.strftime("%Y%m%dT%H%M%SZ")\<close>: the fields zero-padded to four and two digits
  (the year of \<^verbatim>\<open>datetime.now\<close> has four digits).
\<close>

record datetime =
  year :: nat
  month :: nat
  day :: nat
  hour :: nat
  minute :: nat
  second :: nat

definition pad2 :: "nat \<Rightarrow> string" where
  "pad2 n = [digit (n div 10), digit n]"

definition pad4 :: "nat \<Rightarrow> string" where
  "pad4 n = [digit (n div 1000), digit (n div 100), digit (n div 10), digit n]"

definition strftime :: "datetime \<Rightarrow> string" where
  "strftime t = pad4 (year t) @ pad2 (month t) @ pad2 (day t) @ ''T''
                @ pad2 (hour t) @ pad2 (minute t) @ pad2 (second t) @ ''Z''"

section \<open>The services and the process state\<close>

text \<open>An instance of \<^verbatim>\<open>DefaultAzureCredential\<close>, identified by the run of the constructor
  that made it.\<close>

datatype credential = Credential nat

record secret_client =
  vault_url :: string
  sc_credential :: credential

record blob_service_client =
  account_url :: string
  bsc_credential :: credential

text \<open>\<^verbatim>\<open>httpx.Response\<close> (what the flights API answers) and \<^verbatim>\<open>func.HttpRequest\<close>,
  \<^verbatim>\<open>func.HttpResponse\<close> (what the trigger receives and returns).\<close>

record reply =
  reply_status :: nat
  reply_text :: string

record http_request =
  req_method :: string
  req_url :: string
  req_body :: string

record http_response =
  status_code :: nat
  body :: string

text \<open>
  \<^verbatim>\<open>func.HttpResponse(body, status_code=n)\<close> encodes a \<^verbatim>\<open>str\<close> body as UTF-8 in its
  constructor, so building a response raises \<^verbatim>\<open>UnicodeEncodeError\<close> when the body cannot
  be encoded.
\<close>

definition HttpResponse :: "string \<Rightarrow> nat \<Rightarrow> exn + http_response" where
  "HttpResponse text status =
     (case str_encode text of
        Inl e \<Rightarrow> Inl e
      | Inr bytes \<Rightarrow> Inr \<lparr>status_code = status, body = bytes\<rparr>)"

text \<open>The calls sent to the three services, in the order they are made.  A call is
  recorded when it is made, whether or not it then fails.\<close>

datatype call =
    SecretGet string string
  | HttpGet string
  | BlobUpload string string string string

fun is_BlobUpload :: "call \<Rightarrow> bool" where
  "is_BlobUpload (BlobUpload a c b d) = True"
| "is_BlobUpload _ = False"

fun is_HttpGet :: "call \<Rightarrow> bool" where
  "is_HttpGet (HttpGet u) = True"
| "is_HttpGet _ = False"

text \<open>
  The outside world.  A constructor, handle acquisition or upload answers \<open>None\<close> when it
  returns and \<open>Some e\<close> when it raises \<open>e\<close>; each is asked with the strings that identify
  its target (vault or account URL, container, blob name, payload).
  \<open>credential_ctor n\<close> is the \<open>n\<close>-th run (from 0) of \<^verbatim>\<open>DefaultAzureCredential(...)\<close> in
  the process; \<open>http_client_ctor\<close> is \<^verbatim>\<open>httpx.Client(timeout=30.0)\<close> with the entry of the
  \<^verbatim>\<open>with\<close> block; \<open>http_get\<close> is \<^verbatim>\<open>client.get(url)\<close>; \<open>vault_get_secret\<close> answers the
  \<^verbatim>\<open>value\<close> attribute of the secret (itself optional in the SDK) or raises.
\<close>

record world =
  environ :: "string \<Rightarrow> string option"
  credential_ctor :: "nat \<Rightarrow> exn option"
  secret_client_ctor :: "string \<Rightarrow> exn option"
  vault_get_secret :: "string \<Rightarrow> string \<Rightarrow> exn + string option"
  http_client_ctor :: "exn option"
  http_get :: "string \<Rightarrow> exn + reply"
  now_utc :: datetime
  blob_service_ctor :: "string \<Rightarrow> exn option"
  get_container_client :: "string \<Rightarrow> string \<Rightarrow> exn option"
  get_blob_client :: "string \<Rightarrow> string \<Rightarrow> string \<Rightarrow> exn option"
  upload_blob :: "string \<Rightarrow> string \<Rightarrow> string \<Rightarrow> string \<Rightarrow> exn option"

record proc =
  cred_cache :: "credential option"
  secret_client_cache :: "secret_client option"
  cred_constructed :: nat
  calls :: "call list"

text \<open>A process that has just started: both caches empty, nothing constructed or sent.\<close>

definition process_start :: proc where
  "process_start =
     \<lparr>cred_cache = None, secret_client_cache = None, cred_constructed = 0, calls = []\<rparr>"

section \<open>key\_vault.py\<close>

text \<open>
  The body of \<^verbatim>\<open>get_credential\<close>: one run of the constructor.  \<open>cred_constructed\<close> counts
  the runs, whether they return or raise.
\<close>

definition construct_credential :: "world \<Rightarrow> proc \<Rightarrow> (exn + credential) \<times> proc" where
  "construct_credential w st =
     (let n = cred_constructed st;
          st1 = st\<lparr>cred_constructed := Suc n\<rparr>
      in (case credential_ctor w n of
            Some e \<Rightarrow> (Inl e, st1)
          | None \<Rightarrow> (Inr (Credential n), st1)))"

text \<open>
  \<^verbatim>\<open>@functools.cache def get_credential()\<close>: a call with the cache filled returns the
  cached instance; otherwise the body runs, and what it returns is stored and returned.
  When the body raises nothing is stored.
\<close>

definition get_credential :: "world \<Rightarrow> proc \<Rightarrow> (exn + credential) \<times> proc" where
  "get_credential w st =
     (case cred_cache st of
        Some c \<Rightarrow> (Inr c, st)
      | None \<Rightarrow>
          (case construct_credential w st of
             (Inl e, st1) \<Rightarrow> (Inl e, st1)
           | (Inr c, st1) \<Rightarrow> (Inr c, st1\<lparr>cred_cache := Some c\<rparr>)))"

text \<open>
  \<^verbatim>\<open>@functools.cache def get_secret_client()\<close>.  The argument \<^verbatim>\<open>get_credential()\<close> is
  evaluated before \<^verbatim>\<open>SecretClient\<close> is entered.
\<close>

definition get_secret_client :: "world \<Rightarrow> proc \<Rightarrow> (exn + secret_client) \<times> proc" where
  "get_secret_client w st =
     (case secret_client_cache st of
        Some sc \<Rightarrow> (Inr sc, st)
      | None \<Rightarrow>
          (case environ_getitem (environ w) ''KEY_VAULT_URL'' of
             Inl e \<Rightarrow> (Inl e, st)
           | Inr key_vault_url \<Rightarrow>
               (case get_credential w st of
                  (Inl e, st1) \<Rightarrow> (Inl e, st1)
                | (Inr cred, st1) \<Rightarrow>
                    (case secret_client_ctor w key_vault_url of
                       Some e \<Rightarrow> (Inl e, st1)
                     | None \<Rightarrow>
                         let sc = \<lparr>vault_url = key_vault_url, sc_credential = cred\<rparr>
                         in (Inr sc, st1\<lparr>secret_client_cache := Some sc\<rparr>)))))"

text \<open>
  \<^verbatim>\<open>get_secret\<close>: the whole body, the client's construction included, is inside
  \<^verbatim>\<open>try ... except Exception\<close>, whose handler returns \<^verbatim>\<open>None\<close>.
\<close>

definition get_secret_body :: "world \<Rightarrow> string \<Rightarrow> proc \<Rightarrow> (exn + string option) \<times> proc" where
  "get_secret_body w secret_name st =
     (case get_secret_client w st of
        (Inl e, st1) \<Rightarrow> (Inl e, st1)
      | (Inr sc, st1) \<Rightarrow>
          let st2 = st1\<lparr>calls := calls st1 @ [SecretGet (vault_url sc) secret_name]\<rparr>
          in (case vault_get_secret w (vault_url sc) secret_name of
                Inl e \<Rightarrow> (Inl e, st2)
              | Inr v \<Rightarrow> (Inr v, st2)))"

definition get_secret :: "world \<Rightarrow> string \<Rightarrow> proc \<Rightarrow> (exn + string option) \<times> proc" where
  "get_secret w secret_name st =
     (case get_secret_body w secret_name st of
        (Inl e, st1) \<Rightarrow> if is_Exception e then (Inr None, st1) else (Inl e, st1)
      | (Inr v, st1) \<Rightarrow> (Inr v, st1))"

text \<open>\<^verbatim>\<open>get_blob_service_client\<close> is not cached and catches nothing.\<close>

definition get_blob_service_client :: "world \<Rightarrow> proc \<Rightarrow> (exn + blob_service_client) \<times> proc" where
  "get_blob_service_client w st =
     (case environ_getitem (environ w) ''STORAGE_ACCOUNT_NAME'' of
        Inl e \<Rightarrow> (Inl e, st)
      | Inr storage_account_name \<Rightarrow>
          let storage_account_url = ''https://'' @ storage_account_name @ ''.blob.core.windows.net''
          in (case get_credential w st of
                (Inl e, st1) \<Rightarrow> (Inl e, st1)
              | (Inr cred, st1) \<Rightarrow>
                  (case blob_service_ctor w storage_account_url of
                     Some e \<Rightarrow> (Inl e, st1)
                   | None \<Rightarrow>
                       (Inr \<lparr>account_url = storage_account_url, bsc_credential = cred\<rparr>, st1))))"

section \<open>function\_app.py\<close>

text \<open>
  \<^verbatim>\<open>response.raise_for_status()\<close> of httpx raises \<^verbatim>\<open>HTTPStatusError\<close>, a subclass of
  \<^verbatim>\<open>HTTPError\<close>, unless the status is 2xx.  Its text is only logged.
\<close>

definition raise_for_status :: "reply \<Rightarrow> exn option" where
  "raise_for_status r =
     (if 200 \<le> reply_status r \<and> reply_status r \<le> 299 then None
      else Some (Exn HTTPError ''HTTP status error''))"

text \<open>
  The body of the second \<^verbatim>\<open>try\<close> (lines 31 to 35): the client is made and entered, then
  one GET, then the status check.  When the client cannot be made no GET is sent.
\<close>

definition fetch_stage :: "world \<Rightarrow> string \<Rightarrow> proc \<Rightarrow> (exn + string) \<times> proc" where
  "fetch_stage w endpoint_url st =
     (case http_client_ctor w of
        Some e \<Rightarrow> (Inl e, st)
      | None \<Rightarrow>
          let st1 = st\<lparr>calls := calls st @ [HttpGet endpoint_url]\<rparr>
          in (case http_get w endpoint_url of
                Inl e \<Rightarrow> (Inl e, st1)
              | Inr response \<Rightarrow>
                  (case raise_for_status response of
                     Some e \<Rightarrow> (Inl e, st1)
                   | None \<Rightarrow> (Inr (reply_text response), st1))))"

text \<open>Line 45: the name of the blob.\<close>

definition blob_name_of :: "string \<Rightarrow> string \<Rightarrow> string" where
  "blob_name_of path_prefix timestamp = rstrip path_prefix ''/'' @ ''/'' @ timestamp @ ''.json''"

text \<open>
  The body of the third \<^verbatim>\<open>try\<close> (lines 41 to 54).  On line 49 the argument
  \<^verbatim>\<open>data.encode("utf-8")\<close> is evaluated before \<^verbatim>\<open>upload_blob\<close> is entered; the response of
  lines 52 to 54 is built inside the \<^verbatim>\<open>try\<close> as well.
\<close>

definition persist_stage ::
  "world \<Rightarrow> string \<Rightarrow> string \<Rightarrow> string \<Rightarrow> proc \<Rightarrow> (exn + http_response) \<times> proc" where
  "persist_stage w container_name path_prefix data st =
     (case get_blob_service_client w st of
        (Inl e, st1) \<Rightarrow> (Inl e, st1)
      | (Inr blob_service_client, st1) \<Rightarrow>
          let account = account_url blob_service_client in
          (case get_container_client w account container_name of
             Some e \<Rightarrow> (Inl e, st1)
           | None \<Rightarrow>
               let timestamp = strftime (now_utc w);
                   blob_name = blob_name_of path_prefix timestamp
               in (case get_blob_client w account container_name blob_name of
                     Some e \<Rightarrow> (Inl e, st1)
                   | None \<Rightarrow>
                       (case str_encode data of
                          Inl e \<Rightarrow> (Inl e, st1)
                        | Inr bytes \<Rightarrow>
                            let st2 = st1\<lparr>calls := calls st1 @
                                        [BlobUpload account container_name blob_name bytes]\<rparr>
                            in (case upload_blob w account container_name blob_name bytes of
                                  Some e \<Rightarrow> (Inl e, st2)
                                | None \<Rightarrow>
                                    (HttpResponse
                                       (''Data saved successfully to '' @ container_name
                                        @ ''/'' @ blob_name) 200, st2))))))"

text \<open>The handler of the first \<^verbatim>\<open>try\<close>: \<^verbatim>\<open>except KeyError as e\<close>.\<close>

definition config_error :: "exn \<Rightarrow> proc \<Rightarrow> (exn + http_response) \<times> proc" where
  "config_error e st =
     (if is_KeyError e
      then (HttpResponse (''Configuration error: Missing '' @ msg e) 500, st)
      else (Inl e, st))"

text \<open>
  \<^verbatim>\<open>http_trigger(req)\<close>.  \<open>Inl e\<close> is an exception that leaves the trigger; the request
  is never read.  The responses of the three handlers are built outside any \<^verbatim>\<open>try\<close>, so
  an exception of \<open>HttpResponse\<close> there leaves the trigger.
\<close>

definition http_trigger :: "world \<Rightarrow> http_request \<Rightarrow> proc \<Rightarrow> (exn + http_response) \<times> proc" where
  "http_trigger w req st =
     (case environ_getitem (environ w) ''API_URL'' of
        Inl e \<Rightarrow> config_error e st
      | Inr api_url \<Rightarrow>
          (case environ_getitem (environ w) ''ADLS_FILE_SYSTEM'' of
             Inl e \<Rightarrow> config_error e st
           | Inr container_name \<Rightarrow>
               let path_prefix = getenv (environ w) ''ADLS_PATH_PREFIX'' ''flights'' in
               (case get_secret w ''api-key'' st of
                  (Inl e, st1) \<Rightarrow> (Inl e, st1)
                | (Inr api_key, st1) \<Rightarrow>
                    let endpoint_url = (api_url @ ''/flights'') @ ''?key='' @ py_format api_key in
                    (case fetch_stage w endpoint_url st1 of
                       (Inl e, st2) \<Rightarrow>
                         if is_HTTPError e
                         then (HttpResponse ''Failed to fetch data from endpoint'' 502, st2)
                         else (Inl e, st2)
                     | (Inr data, st2) \<Rightarrow>
                         (case persist_stage w container_name path_prefix data st2 of
                            (Inl e, st3) \<Rightarrow>
                              if is_Exception e
                              then (HttpResponse
                                      (''Failed to save data to storage: '' @ msg e) 500, st3)
                              else (Inl e, st3)
                          | (Inr response, st3) \<Rightarrow> (Inr response, st3))))))"

section \<open>Repeated and overlapping calls of get\_credential\<close>

text \<open>Calls of \<^verbatim>\<open>get_credential\<close> one after another: what each returned or raised, in
  order, and the state they leave.\<close>

fun get_credential_times :: "world \<Rightarrow> nat \<Rightarrow> proc \<Rightarrow> (exn + credential) list \<times> proc" where
  "get_credential_times w 0 st = ([], st)"
| "get_credential_times w (Suc n) st =
     (case get_credential w st of
        (r, st1) \<Rightarrow> (case get_credential_times w n st1 of (rs, st2) \<Rightarrow> (r # rs, st2)))"

text \<open>
  Calls that overlap.  The wrapper of \<^verbatim>\<open>functools.cache\<close> looks the key up, calls the body
  on a miss and then stores the result, and another thread can run between these steps
  (the Python documentation: the wrapped function can be called more than once if another
  thread makes a call before the first has been cached).  A call is at one of these points;
  a schedule names the call that takes the next step.
\<close>

datatype call_point =
    AtLookup
  | AtBody
  | AtStore credential
  | Returned credential
  | Raised exn

fun call_step :: "world \<Rightarrow> call_point \<Rightarrow> proc \<Rightarrow> call_point \<times> proc" where
  "call_step w AtLookup st =
     (case cred_cache st of Some c \<Rightarrow> (Returned c, st) | None \<Rightarrow> (AtBody, st))"
| "call_step w AtBody st =
     (case construct_credential w st of
        (Inl e, st1) \<Rightarrow> (Raised e, st1)
      | (Inr c, st1) \<Rightarrow> (AtStore c, st1))"
| "call_step w (AtStore c) st = (Returned c, st\<lparr>cred_cache := Some c\<rparr>)"
| "call_step w (Returned c) st = (Returned c, st)"
| "call_step w (Raised e) st = (Raised e, st)"

fun run_schedule :: "world \<Rightarrow> nat list \<Rightarrow> call_point list \<times> proc \<Rightarrow> call_point list \<times> proc" where
  "run_schedule w [] cfg = cfg"
| "run_schedule w (i # sched) (ps, st) =
     (if i < length ps
      then (case call_step w (ps ! i) st of
              (p, st1) \<Rightarrow> run_schedule w sched (ps[i := p], st1))
      else run_schedule w sched (ps, st))"

section \<open>Concrete environments\<close>

text \<open>
  The scenario of the test suite: the configuration, a vault that holds the key, an API that
  answers 200 and a store that accepts the upload, at 2023-11-10 12:00:00 UTC.  The other
  worlds change one service each.
\<close>

definition scenario_env :: "string \<Rightarrow> string option" where
  "scenario_env =
     [''API_URL'' \<mapsto> ''https://api.example.com'',
      ''ADLS_FILE_SYSTEM'' \<mapsto> ''test-container'',
      ''KEY_VAULT_URL'' \<mapsto> ''https://test-vault.vault.azure.net/'',
      ''STORAGE_ACCOUNT_NAME'' \<mapsto> ''teststorage'']"

definition flights_json :: string where
  "flights_json = [CHR ''{'', CHR 0x22] @ ''flights'' @ [CHR 0x22] @ '': []}''"

definition scenario :: world where
  "scenario =
     \<lparr>environ = scenario_env,
      credential_ctor = (\<lambda>n. None),
      secret_client_ctor = (\<lambda>u. None),
      vault_get_secret = (\<lambda>u n. Inr (Some ''test-api-key'')),
      http_client_ctor = None,
      http_get = (\<lambda>u. Inr \<lparr>reply_status = 200, reply_text = flights_json\<rparr>),
      now_utc = \<lparr>year = 2023, month = 11, day = 10, hour = 12, minute = 0, second = 0\<rparr>,
      blob_service_ctor = (\<lambda>u. None),
      get_container_client = (\<lambda>a c. None),
      get_blob_client = (\<lambda>a c b. None),
      upload_blob = (\<lambda>a c b d. None)\<rparr>"

definition trigger_request :: http_request where
  "trigger_request = \<lparr>req_method = ''GET'', req_url = ''/api/http_trigger'', req_body = []\<rparr>"



definition scenario_secret_absent :: world where
  "scenario_secret_absent =
     scenario\<lparr>vault_get_secret := (\<lambda>u n. Inl (Exn OtherException ''Secret not found''))\<rparr>"

definition scenario_no_vault :: world where
  "scenario_no_vault = scenario\<lparr>environ := scenario_env(''KEY_VAULT_URL'' := None)\<rparr>"

definition scenario_no_identity :: world where
  "scenario_no_identity =
     scenario\<lparr>credential_ctor := (\<lambda>n. Some (Exn OtherException ''No credential available''))\<rparr>"

definition scenario_no_config :: world where
  "scenario_no_config = scenario\<lparr>environ := (\<lambda>k. None)\<rparr>"

definition scenario_no_container :: world where
  "scenario_no_container = scenario\<lparr>environ := scenario_env(''ADLS_FILE_SYSTEM'' := None)\<rparr>"

definition scenario_fetch_fails :: world where
  "scenario_fetch_fails =
     scenario\<lparr>http_get := (\<lambda>u. Inl (Exn HTTPError ''Connection failed''))\<rparr>"

definition scenario_fetch_404 :: world where
  "scenario_fetch_404 =
     scenario\<lparr>http_get := (\<lambda>u. Inr \<lparr>reply_status = 404, reply_text = ''Not Found''\<rparr>)\<rparr>"

definition scenario_invalid_url :: world where
  "scenario_invalid_url =
     scenario\<lparr>http_get := (\<lambda>u. Inl (Exn OtherException ''Invalid port''))\<rparr>"

definition scenario_upload_fails :: world where
  "scenario_upload_fails =
     scenario\<lparr>upload_blob := (\<lambda>a c b d. Some (Exn OtherException ''Storage error''))\<rparr>"

text \<open>An upload that raises an exception whose text is the lone surrogate \<^verbatim>\<open>'\udc80'\<close>.\<close>

definition scenario_upload_fails_surrogate :: world where
  "scenario_upload_fails_surrogate =
     scenario\<lparr>upload_blob := (\<lambda>a c b d. Some (Exn OtherException [CHR 0x80]))\<rparr>"

definition scenario_no_storage_account :: world where
  "scenario_no_storage_account =
     scenario\<lparr>environ := scenario_env(''STORAGE_ACCOUNT_NAME'' := None)\<rparr>"


section \<open>Stage lemmas\<close>

lemmas world_defs = scenario_def scenario_env_def flights_json_def trigger_request_def
  process_start_def

lemmas run_defs = http_trigger_def config_error_def environ_getitem_def getenv_def
  get_secret_def get_secret_body_def get_secret_client_def get_credential_def
  construct_credential_def py_format_def
  py_repr_def fetch_stage_def raise_for_status_def persist_stage_def get_blob_service_client_def
  blob_name_of_def rstrip_def strftime_def pad2_def pad4_def digit_def
  HttpResponse_def str_encode_def utf8_encodable_def encodable_char_def
  is_Exception_def is_HTTPError_def is_KeyError_def Let_def

lemma is_Exception_always: "is_Exception e"
proof (cases e)
  case (Exn c m)
  then show ?thesis by (cases c) (simp_all add: is_Exception_def)
qed

subsection \<open>Encodable text\<close>

lemma utf8_encodable_append: "utf8_encodable (a @ b) = (utf8_encodable a \<and> utf8_encodable b)"
  by (simp add: utf8_encodable_def)


lemma encodable_digit: "encodable_char (digit n)"
proof -
  have "n mod 10 < length ''0123456789''" by simp
  then have "''0123456789'' ! (n mod 10) \<in> set ''0123456789''" by (rule nth_mem)
  then show ?thesis unfolding digit_def by (auto simp: encodable_char_def)
qed

lemma encodable_hex_digit: "encodable_char (hex_digit n)"
proof -
  have "n mod 16 < length ''0123456789abcdef''" by simp
  then have "''0123456789abcdef'' ! (n mod 16) \<in> set ''0123456789abcdef''" by (rule nth_mem)
  then show ?thesis unfolding hex_digit_def by (auto simp: encodable_char_def)
qed

lemma utf8_encodable_decimal: "utf8_encodable (decimal n)"
proof (induction n rule: decimal.induct)
  case (1 n)
  show ?case
  proof (cases "n < 10")
    case True
    then show ?thesis by (simp add: utf8_encodable_def encodable_digit)
  next
    case False
    then have "utf8_encodable (decimal (n div 10))" using 1 by simp
    moreover have "decimal n = decimal (n div 10) @ [digit n]" using False by simp
    ultimately show ?thesis by (simp add: utf8_encodable_def encodable_digit)
  qed
qed

lemma utf8_encodable_error_text: "utf8_encodable (msg (unicode_encode_error s))"
proof -
  have d: "\<And>n. list_all encodable_char (decimal n)"
    using utf8_encodable_decimal by (simp add: utf8_encodable_def)
  show ?thesis
    by (simp add: unicode_encode_error_def surrogate_escape_def Let_def utf8_encodable_def
          encodable_hex_digit d del: decimal.simps)
       (simp add: encodable_char_def)
qed



lemma HttpResponse_ok:
  "utf8_encodable text \<Longrightarrow> HttpResponse text n = Inr \<lparr>status_code = n, body = text\<rparr>"
  by (simp add: HttpResponse_def str_encode_def)

lemma HttpResponse_raises:
  "\<not> utf8_encodable text \<Longrightarrow> HttpResponse text n = Inl (unicode_encode_error text)"
  by (simp add: HttpResponse_def str_encode_def)

lemma HttpResponse_Inr: "HttpResponse text n = Inr r \<Longrightarrow> status_code r = n"
  by (auto simp: HttpResponse_def str_encode_def split: if_splits)

lemma HttpResponse_Inl: "HttpResponse text n = Inl e \<Longrightarrow> utf8_encodable (msg e)"
  by (auto simp: HttpResponse_def str_encode_def utf8_encodable_error_text split: if_splits)

subsection \<open>The credential cache\<close>

lemma get_credential_cached: "cred_cache st = Some c \<Longrightarrow> get_credential w st = (Inr c, st)"
  by (simp add: get_credential_def)

lemma get_credential_fresh:
  "cred_cache st = None \<Longrightarrow> credential_ctor w (cred_constructed st) = None \<Longrightarrow>
   get_credential w st =
     (Inr (Credential (cred_constructed st)),
      st\<lparr>cred_cache := Some (Credential (cred_constructed st)),
         cred_constructed := Suc (cred_constructed st)\<rparr>)"
  by (simp add: get_credential_def construct_credential_def Let_def)

lemma get_credential_raises:
  "cred_cache st = None \<Longrightarrow> credential_ctor w (cred_constructed st) = Some e \<Longrightarrow>
   get_credential w st = (Inl e, st\<lparr>cred_constructed := Suc (cred_constructed st)\<rparr>)"
  by (simp add: get_credential_def construct_credential_def Let_def)

lemma get_credential_calls: "calls (snd (get_credential w st)) = calls st"
  by (simp add: get_credential_def construct_credential_def Let_def split: option.splits)


lemma get_credential_Inl:
  "fst (get_credential w st) = Inl e \<Longrightarrow> \<exists>n. credential_ctor w n = Some e"
  by (auto simp: get_credential_def construct_credential_def Let_def split: option.splits)

lemma get_credential_times_cached:
  "cred_cache st = Some c \<Longrightarrow> get_credential_times w n st = (replicate n (Inr c), st)"
  by (induction n) (simp_all add: get_credential_cached)

subsection \<open>The secret resolver\<close>

lemma get_secret_client_calls: "calls (snd (get_secret_client w st)) = calls st"
proof -
  have "calls (snd (get_credential w st)) = calls st" by (rule get_credential_calls)
  then show ?thesis
    by (auto simp: get_secret_client_def environ_getitem_def Let_def
             split: option.splits sum.splits prod.splits)
qed

lemma get_secret_body_calls:
  "calls (snd (get_secret_body w n st)) = calls st \<or>
   (\<exists>u. calls (snd (get_secret_body w n st)) = calls st @ [SecretGet u n])"
proof -
  have "calls (snd (get_secret_client w st)) = calls st" by (rule get_secret_client_calls)
  then show ?thesis
    by (auto simp: get_secret_body_def Let_def split: sum.splits prod.splits)
qed

lemma get_secret_fst:
  "fst (get_secret w n st) =
     Inr (case fst (get_secret_body w n st) of Inl e \<Rightarrow> None | Inr v \<Rightarrow> v)"
  by (simp add: get_secret_def is_Exception_always split: prod.splits sum.splits)

lemma get_secret_snd: "snd (get_secret w n st) = snd (get_secret_body w n st)"
  by (simp add: get_secret_def is_Exception_always split: prod.splits sum.splits)

lemma get_secret_calls:
  "calls (snd (get_secret w n st)) = calls st \<or>
   (\<exists>u. calls (snd (get_secret w n st)) = calls st @ [SecretGet u n])"
  using get_secret_body_calls [of w n st] by (simp add: get_secret_snd)

lemma get_secret_no_upload:
  "filter is_BlobUpload (calls (snd (get_secret w n st))) = filter is_BlobUpload (calls st)"
  using get_secret_calls [of w n st] by auto

subsection \<open>The fetch stage\<close>


lemma fetch_stage_transport:
  "http_client_ctor w = None \<Longrightarrow> http_get w u = Inl e \<Longrightarrow>
   fetch_stage w u st = (Inl e, st\<lparr>calls := calls st @ [HttpGet u]\<rparr>)"
  by (simp add: fetch_stage_def Let_def)

lemma fetch_stage_status:
  "http_client_ctor w = None \<Longrightarrow> http_get w u = Inr r \<Longrightarrow>
   \<not> (200 \<le> reply_status r \<and> reply_status r \<le> 299) \<Longrightarrow>
   fetch_stage w u st =
     (Inl (Exn HTTPError ''HTTP status error''), st\<lparr>calls := calls st @ [HttpGet u]\<rparr>)"
  by (simp add: fetch_stage_def raise_for_status_def Let_def)

lemma fetch_stage_Inl:
  "fst (fetch_stage w u st) = Inl e \<Longrightarrow>
   http_client_ctor w = Some e \<or> http_get w u = Inl e \<or> e = Exn HTTPError ''HTTP status error''"
  by (auto simp: fetch_stage_def raise_for_status_def Let_def
           split: sum.splits if_splits option.splits)

subsection \<open>The storage stage\<close>


lemma get_blob_service_client_fst:
  "fst (get_blob_service_client w st) =
     (case environ w ''STORAGE_ACCOUNT_NAME'' of
        None \<Rightarrow> Inl (Exn KeyError (py_repr ''STORAGE_ACCOUNT_NAME''))
      | Some acct \<Rightarrow>
          (case fst (get_credential w st) of
             Inl e \<Rightarrow> Inl e
           | Inr cred \<Rightarrow>
               (case blob_service_ctor w (''https://'' @ acct @ ''.blob.core.windows.net'') of
                  Some e \<Rightarrow> Inl e
                | None \<Rightarrow> Inr \<lparr>account_url = ''https://'' @ acct @ ''.blob.core.windows.net'',
                               bsc_credential = cred\<rparr>)))"
  by (simp add: get_blob_service_client_def environ_getitem_def Let_def
           split: option.splits sum.splits prod.splits)


lemma persist_stage_Inr: "fst (persist_stage w c p d st) = Inr r \<Longrightarrow> status_code r = 200"
  by (auto simp: persist_stage_def Let_def dest: HttpResponse_Inr
           split: sum.splits prod.splits option.splits)

lemma persist_stage_Inl_text:
  assumes "fst (persist_stage w c p d st) = Inl e"
    and "\<And>n x. credential_ctor w n = Some x \<Longrightarrow> utf8_encodable (msg x)"
    and "\<And>a x. blob_service_ctor w a = Some x \<Longrightarrow> utf8_encodable (msg x)"
    and "\<And>a c x. get_container_client w a c = Some x \<Longrightarrow> utf8_encodable (msg x)"
    and "\<And>a c b x. get_blob_client w a c b = Some x \<Longrightarrow> utf8_encodable (msg x)"
    and "\<And>a c b d x. upload_blob w a c b d = Some x \<Longrightarrow> utf8_encodable (msg x)"
  shows "utf8_encodable (msg e)"
proof -
  obtain bsc st1 where g: "get_blob_service_client w st = (bsc, st1)"
    by (cases "get_blob_service_client w st")
  have k: "utf8_encodable (msg (Exn KeyError (py_repr ''STORAGE_ACCOUNT_NAME'')))"
    by (simp add: py_repr_def utf8_encodable_def encodable_char_def)
  show ?thesis
  proof (cases bsc)
    case (Inl x)
    then have e: "e = x" using assms(1) g by (simp add: persist_stage_def)
    have "fst (get_blob_service_client w st) = Inl x" using g Inl by simp
    then have "x = Exn KeyError (py_repr ''STORAGE_ACCOUNT_NAME'') \<or>
               fst (get_credential w st) = Inl x \<or> (\<exists>a. blob_service_ctor w a = Some x)"
      unfolding get_blob_service_client_fst
      by (auto split: option.splits sum.splits)
    then show ?thesis
      using e k assms(2,3) get_credential_Inl [of w st x] by auto
  next
    case (Inr client)
    then show ?thesis
      using assms(1) g assms(4,5,6) utf8_encodable_error_text HttpResponse_Inl
      by (auto simp: persist_stage_def str_encode_def Let_def
               split: option.splits if_splits sum.splits)
  qed
qed

subsection \<open>The trigger once the configuration is read\<close>

lemma http_trigger_configured:
  assumes "environ w ''API_URL'' = Some api_url"
    and "environ w ''ADLS_FILE_SYSTEM'' = Some container"
    and "fst (get_secret w ''api-key'' st) = Inr api_key"
  shows "http_trigger w req st =
     (case fetch_stage w (api_url @ ''/flights?key='' @ py_format api_key)
             (snd (get_secret w ''api-key'' st)) of
        (Inl e, st2) \<Rightarrow>
          if is_HTTPError e
          then (HttpResponse ''Failed to fetch data from endpoint'' 502, st2)
          else (Inl e, st2)
      | (Inr data, st2) \<Rightarrow>
          (case persist_stage w container (getenv (environ w) ''ADLS_PATH_PREFIX'' ''flights'')
                  data st2 of
             (Inl e, st3) \<Rightarrow>
               (HttpResponse (''Failed to save data to storage: '' @ msg e) 500, st3)
           | (Inr response, st3) \<Rightarrow> (Inr response, st3)))"
proof -
  obtain r st1 where g: "get_secret w ''api-key'' st = (r, st1)"
    by (cases "get_secret w ''api-key'' st")
  with assms(3) have r: "r = Inr api_key" by simp
  show ?thesis
    using assms(1,2) g r
    by (simp add: http_trigger_def environ_getitem_def Let_def is_Exception_always
             split: prod.splits sum.splits)
qed

lemma fetch_failed_response:
  "HttpResponse ''Failed to fetch data from endpoint'' 502 =
     Inr \<lparr>status_code = 502, body = ''Failed to fetch data from endpoint''\<rparr>"
  by (rule HttpResponse_ok) (simp add: utf8_encodable_def encodable_char_def)

subsection \<open>Stripping slashes and the shape of the blob name\<close>








section \<open>The claims\<close>

text \<open>
  Claim C3.  For every secret name and every outcome of the secret store, \<open>get_secret\<close>
  never raises: its result is always a returned value (\<open>Inr\<close>).  When the client is obtained
  and the store answers, the result is the secret's value; when the store raises (not found,
  network, permission) the result is \<^verbatim>\<open>None\<close>; when obtaining the client raises (the
  configuration value missing, the credential or the client constructor failing) the result
  is \<^verbatim>\<open>None\<close> too.
\<close>

theorem get_secret_never_raises:
  "(\<exists>v. fst (get_secret w name st) = Inr v) \<and>
   (fst (get_secret_client w st) = Inr sc \<longrightarrow> vault_get_secret w (vault_url sc) name = Inr v
      \<longrightarrow> fst (get_secret w name st) = Inr v) \<and>
   (fst (get_secret_client w st) = Inr sc \<longrightarrow> vault_get_secret w (vault_url sc) name = Inl e
      \<longrightarrow> fst (get_secret w name st) = Inr None) \<and>
   (fst (get_secret_client w st) = Inl e \<longrightarrow> fst (get_secret w name st) = Inr None)"
proof -
  obtain r st1 where g: "get_secret_client w st = (r, st1)" by (cases "get_secret_client w st")
  show ?thesis
    by (cases r) (simp_all add: get_secret_fst get_secret_body_def g Let_def split: sum.splits)
qed

theorem get_secret_never_raises_witness:
  "fst (get_secret scenario ''api-key'' process_start) = Inr (Some ''test-api-key'') \<and>
   fst (get_secret scenario_secret_absent ''api-key'' process_start) = Inr None \<and>
   fst (get_secret scenario_no_vault ''api-key'' process_start) = Inr None \<and>
   fst (get_secret scenario_no_identity ''api-key'' process_start) = Inr None"
proof -
  let ?sc = "\<lparr>vault_url = ''https://test-vault.vault.azure.net/'', sc_credential = Credential 0\<rparr>"
  have c1: "fst (get_secret_client scenario process_start) = Inr ?sc"
    by (simp add: world_defs run_defs)
  have v1: "vault_get_secret scenario (vault_url ?sc) ''api-key'' = Inr (Some ''test-api-key'')"
    by (simp add: world_defs)
  have c2: "fst (get_secret_client scenario_secret_absent process_start) = Inr ?sc"
    by (simp add: world_defs scenario_secret_absent_def run_defs)
  have v2: "vault_get_secret scenario_secret_absent (vault_url ?sc) ''api-key''
              = Inl (Exn OtherException ''Secret not found'')"
    by (simp add: world_defs scenario_secret_absent_def)
  have c3: "fst (get_secret_client scenario_no_vault process_start)
              = Inl (Exn KeyError (py_repr ''KEY_VAULT_URL''))"
    by (simp add: world_defs scenario_no_vault_def run_defs)
  have c4: "fst (get_secret_client scenario_no_identity process_start)
              = Inl (Exn OtherException ''No credential available'')"
    by (simp add: world_defs scenario_no_identity_def run_defs)
  show ?thesis
    using get_secret_never_raises [of scenario "''api-key''" process_start ?sc "Some ''test-api-key''"] c1 v1
      get_secret_never_raises [of scenario_secret_absent "''api-key''" process_start ?sc _
          "Exn OtherException ''Secret not found''"] c2 v2
      get_secret_never_raises [of scenario_no_vault "''api-key''" process_start _ _
          "Exn KeyError (py_repr ''KEY_VAULT_URL'')"] c3
      get_secret_never_raises [of scenario_no_identity "''api-key''" process_start _ _
          "Exn OtherException ''No credential available''"] c4
    by blast
qed

text \<open>
  Claim C8, amended.  For calls made one after another: when the cache is empty and the
  constructor returns, that call builds the credential, every later call returns the one
  instance it built, and the constructor has run exactly once however many calls follow.
  (A call whose constructor raises stores nothing, and calls that overlap can each run the
  constructor: both are shown below.)
\<close>

theorem get_credential_memoized:
  assumes "cred_cache st = None"
    and "credential_ctor w (cred_constructed st) = None"
  shows "get_credential_times w (Suc n) st =
           (replicate (Suc n) (Inr (Credential (cred_constructed st))),
            st\<lparr>cred_cache := Some (Credential (cred_constructed st)),
               cred_constructed := Suc (cred_constructed st)\<rparr>)"
proof -
  let ?c = "Credential (cred_constructed st)"
  let ?st1 = "st\<lparr>cred_cache := Some ?c, cred_constructed := Suc (cred_constructed st)\<rparr>"
  have first: "get_credential w st = (Inr ?c, ?st1)" using assms by (rule get_credential_fresh)
  have "cred_cache ?st1 = Some ?c" by simp
  then have rest: "get_credential_times w n ?st1 = (replicate n (Inr ?c), ?st1)"
    by (rule get_credential_times_cached)
  show ?thesis by (simp add: first rest)
qed

theorem get_credential_memoized_witness:
  "cred_cache process_start = None \<and>
   credential_ctor scenario (cred_constructed process_start) = None \<and>
   get_credential_times scenario 3 process_start =
     ([Inr (Credential 0), Inr (Credential 0), Inr (Credential 0)],
      process_start\<lparr>cred_cache := Some (Credential 0), cred_constructed := 1\<rparr>)"
proof -
  have h: "cred_cache process_start = None" by (simp add: process_start_def)
  have c: "credential_ctor scenario (cred_constructed process_start) = None"
    by (simp add: scenario_def)
  have n: "(3::nat) = Suc 2" by simp
  show ?thesis
    using h c get_credential_memoized [OF h c, of 2]
    by (simp add: n process_start_def numeral_2_eq_2)
qed

text \<open>
  Claim C8 as written has the constructor run at most once and every call after the first
  return the cached instance.  When the identity chain is unavailable the constructor
  raises, \<^verbatim>\<open>functools.cache\<close> stores nothing, and three calls run the constructor three
  times and return no instance.
\<close>

theorem get_credential_reconstructs_counterexample:
  "get_credential_times scenario_no_identity 3 process_start =
     ([Inl (Exn OtherException ''No credential available''),
       Inl (Exn OtherException ''No credential available''),
       Inl (Exn OtherException ''No credential available'')],
      process_start\<lparr>cred_constructed := 3\<rparr>)"
  by (simp add: numeral_3_eq_3 world_defs scenario_no_identity_def get_credential_def
        construct_credential_def Let_def)

text \<open>
  A call that runs alone goes through the three points of the wrapper and ends as
  \<open>get_credential\<close> does.  Two calls that both look the cache up before either has stored
  run the constructor twice and return different instances.
\<close>

lemma call_steps_alone:
  "run_schedule w [0, 0, 0] ([AtLookup], st) =
     ([case fst (get_credential w st) of Inr c \<Rightarrow> Returned c | Inl e \<Rightarrow> Raised e],
      snd (get_credential w st))"
  by (simp add: get_credential_def split: option.splits sum.splits prod.splits)

lemma overlapping_calls_construct_twice:
  "run_schedule scenario [0, 1, 0, 1, 0, 1] ([AtLookup, AtLookup], process_start) =
     ([Returned (Credential 0), Returned (Credential 1)],
      process_start\<lparr>cred_cache := Some (Credential 1), cred_constructed := 2\<rparr>)"
  by (simp add: world_defs construct_credential_def Let_def)

text \<open>
  Claim C6.  With the configuration loaded, if the GET fails with an \<^verbatim>\<open>httpx.HTTPError\<close>
  (a transport error) or answers a status outside 2xx, the trigger returns 502 with the body
  \<^verbatim>\<open>Failed to fetch data from endpoint\<close>; the only call it adds after resolving the secret
  is that GET, and no upload is attempted.
\<close>

theorem http_trigger_fetch_failure:
  assumes "environ w ''API_URL'' = Some api_url"
    and "environ w ''ADLS_FILE_SYSTEM'' = Some container"
    and "fst (get_secret w ''api-key'' st) = Inr api_key"
    and "url = api_url @ ''/flights?key='' @ py_format api_key"
    and "http_client_ctor w = None"
    and "(http_get w url = Inl e \<and> is_HTTPError e) \<or>
         (http_get w url = Inr r \<and> \<not> (200 \<le> reply_status r \<and> reply_status r \<le> 299))"
  shows "fst (http_trigger w req st) =
           Inr \<lparr>status_code = 502, body = ''Failed to fetch data from endpoint''\<rparr> \<and>
         calls (snd (http_trigger w req st)) =
           calls (snd (get_secret w ''api-key'' st)) @ [HttpGet url] \<and>
         filter is_BlobUpload (calls (snd (http_trigger w req st))) =
           filter is_BlobUpload (calls st)"
proof -
  let ?st1 = "snd (get_secret w ''api-key'' st)"
  let ?st2 = "?st1\<lparr>calls := calls ?st1 @ [HttpGet url]\<rparr>"
  from assms(6) obtain e' where f: "fetch_stage w url ?st1 = (Inl e', ?st2)" and h: "is_HTTPError e'"
  proof
    assume "http_get w url = Inl e \<and> is_HTTPError e"
    then show ?thesis using that fetch_stage_transport [OF assms(5), of url e ?st1] by simp
  next
    assume "http_get w url = Inr r \<and> \<not> (200 \<le> reply_status r \<and> reply_status r \<le> 299)"
    then show ?thesis
      using that [of "Exn HTTPError ''HTTP status error''"]
        fetch_stage_status [OF assms(5), of url r ?st1]
      by (simp add: is_HTTPError_def)
  qed
  have t: "http_trigger w req st =
      (Inr \<lparr>status_code = 502, body = ''Failed to fetch data from endpoint''\<rparr>, ?st2)"
    using http_trigger_configured [OF assms(1,2,3), of req] f h assms(4)
    by (simp add: fetch_failed_response)
  show ?thesis
    using t get_secret_no_upload [of w "''api-key''" st] by simp
qed

theorem http_trigger_fetch_failure_witness:
  "fst (http_trigger scenario_fetch_fails trigger_request process_start) =
     Inr \<lparr>status_code = 502, body = ''Failed to fetch data from endpoint''\<rparr> \<and>
   filter is_BlobUpload (calls (snd (http_trigger scenario_fetch_fails trigger_request process_start))) = [] \<and>
   fst (http_trigger scenario_fetch_404 trigger_request process_start) =
     Inr \<lparr>status_code = 502, body = ''Failed to fetch data from endpoint''\<rparr> \<and>
   filter is_BlobUpload (calls (snd (http_trigger scenario_fetch_404 trigger_request process_start))) = []"
proof -
  let ?url = "''https://api.example.com'' @ ''/flights?key='' @ py_format (Some ''test-api-key'')"
  have a1: "environ scenario_fetch_fails ''API_URL'' = Some ''https://api.example.com''"
    and a2: "environ scenario_fetch_fails ''ADLS_FILE_SYSTEM'' = Some ''test-container''"
    and a3: "fst (get_secret scenario_fetch_fails ''api-key'' process_start) = Inr (Some ''test-api-key'')"
    and a4: "http_client_ctor scenario_fetch_fails = None"
    and a5: "(http_get scenario_fetch_fails ?url = Inl (Exn HTTPError ''Connection failed'') \<and>
               is_HTTPError (Exn HTTPError ''Connection failed'')) \<or>
             (http_get scenario_fetch_fails ?url = Inr \<lparr>reply_status = 404, reply_text = ''Not Found''\<rparr> \<and>
               \<not> (200 \<le> reply_status \<lparr>reply_status = 404, reply_text = ''Not Found''\<rparr> \<and>
                  reply_status \<lparr>reply_status = 404, reply_text = ''Not Found''\<rparr> \<le> 299))"
    by (simp_all add: world_defs scenario_fetch_fails_def run_defs)
  have b1: "environ scenario_fetch_404 ''API_URL'' = Some ''https://api.example.com''"
    and b2: "environ scenario_fetch_404 ''ADLS_FILE_SYSTEM'' = Some ''test-container''"
    and b3: "fst (get_secret scenario_fetch_404 ''api-key'' process_start) = Inr (Some ''test-api-key'')"
    and b4: "http_client_ctor scenario_fetch_404 = None"
    and b5: "(http_get scenario_fetch_404 ?url = Inl (Exn HTTPError ''Connection failed'') \<and>
               is_HTTPError (Exn HTTPError ''Connection failed'')) \<or>
             (http_get scenario_fetch_404 ?url = Inr \<lparr>reply_status = 404, reply_text = ''Not Found''\<rparr> \<and>
               \<not> (200 \<le> reply_status \<lparr>reply_status = 404, reply_text = ''Not Found''\<rparr> \<and>
                  reply_status \<lparr>reply_status = 404, reply_text = ''Not Found''\<rparr> \<le> 299))"
    by (simp_all add: world_defs scenario_fetch_404_def run_defs)
  have s: "filter is_BlobUpload (calls process_start) = []" by (simp add: process_start_def)
  show ?thesis
    using http_trigger_fetch_failure [OF a1 a2 a3 refl a4 a5, of trigger_request, unfolded s]
          http_trigger_fetch_failure [OF b1 b2 b3 refl b4 b5, of trigger_request, unfolded s]
    by blast
qed

text \<open>
  Claim C5.  If \<^verbatim>\<open>API_URL\<close> or \<^verbatim>\<open>ADLS_FILE_SYSTEM\<close> is absent from the environment, the
  trigger returns 500 with the body \<^verbatim>\<open>Configuration error: Missing\<close> followed by the name of
  the first absent key (as \<^verbatim>\<open>str(KeyError)\<close> prints it, between quotes), and the process
  state is the one it started from: no call was sent to the vault, the API or the store.
\<close>

theorem http_trigger_missing_config:
  assumes "environ w ''API_URL'' = None \<or> environ w ''ADLS_FILE_SYSTEM'' = None"
    and "k = (if environ w ''API_URL'' = None then ''API_URL'' else ''ADLS_FILE_SYSTEM'')"
  shows "environ w k = None \<and>
         fst (http_trigger w req st) =
           Inr \<lparr>status_code = 500, body = ''Configuration error: Missing '' @ py_repr k\<rparr> \<and>
         snd (http_trigger w req st) = st \<and>
         calls (snd (http_trigger w req st)) = calls st"
proof (cases "environ w ''API_URL''")
  case None
  have "HttpResponse (''Configuration error: Missing '' @ py_repr ''API_URL'') 500 =
          Inr \<lparr>status_code = 500, body = ''Configuration error: Missing '' @ py_repr ''API_URL''\<rparr>"
    by (rule HttpResponse_ok) (simp add: py_repr_def utf8_encodable_def encodable_char_def)
  with None show ?thesis using assms(2)
    by (simp add: http_trigger_def environ_getitem_def config_error_def is_KeyError_def)
next
  case (Some a)
  with assms(1) have n: "environ w ''ADLS_FILE_SYSTEM'' = None" by simp
  have "HttpResponse (''Configuration error: Missing '' @ py_repr ''ADLS_FILE_SYSTEM'') 500 =
          Inr \<lparr>status_code = 500,
               body = ''Configuration error: Missing '' @ py_repr ''ADLS_FILE_SYSTEM''\<rparr>"
    by (rule HttpResponse_ok) (simp add: py_repr_def utf8_encodable_def encodable_char_def)
  with n Some show ?thesis using assms(2)
    by (simp add: http_trigger_def environ_getitem_def config_error_def is_KeyError_def)
qed

theorem http_trigger_missing_config_witness:
  "fst (http_trigger scenario_no_config trigger_request process_start) =
     Inr \<lparr>status_code = 500,
          body = ''Configuration error: Missing '' @ [CHR 0x27] @ ''API_URL'' @ [CHR 0x27]\<rparr> \<and>
   calls (snd (http_trigger scenario_no_config trigger_request process_start)) = [] \<and>
   fst (http_trigger scenario_no_container trigger_request process_start) =
     Inr \<lparr>status_code = 500,
          body = ''Configuration error: Missing '' @ [CHR 0x27] @ ''ADLS_FILE_SYSTEM'' @ [CHR 0x27]\<rparr> \<and>
   calls (snd (http_trigger scenario_no_container trigger_request process_start)) = []"
proof -
  have a: "environ scenario_no_config ''API_URL'' = None \<or>
           environ scenario_no_config ''ADLS_FILE_SYSTEM'' = None"
    and ak: "''API_URL'' = (if environ scenario_no_config ''API_URL'' = None
                            then ''API_URL'' else ''ADLS_FILE_SYSTEM'')"
    by (simp_all add: world_defs scenario_no_config_def)
  have b: "environ scenario_no_container ''API_URL'' = None \<or>
           environ scenario_no_container ''ADLS_FILE_SYSTEM'' = None"
    and bk: "''ADLS_FILE_SYSTEM'' = (if environ scenario_no_container ''API_URL'' = None
                            then ''API_URL'' else ''ADLS_FILE_SYSTEM'')"
    by (simp_all add: world_defs scenario_no_container_def)
  have s: "calls process_start = []" by (simp add: process_start_def)
  have r1: "py_repr ''API_URL'' = [CHR 0x27] @ ''API_URL'' @ [CHR 0x27]"
    and r2: "py_repr ''ADLS_FILE_SYSTEM'' = [CHR 0x27] @ ''ADLS_FILE_SYSTEM'' @ [CHR 0x27]"
    by (simp_all add: py_repr_def)
  show ?thesis
    using http_trigger_missing_config [OF a ak, of trigger_request process_start, unfolded s r1]
          http_trigger_missing_config [OF b bk, of trigger_request process_start, unfolded s r2]
    by blast
qed




text \<open>
  Claim C2.  The claim has an absent secret put an empty value into the query string
  (\<^verbatim>\<open>?key=\<close>); the test \<^verbatim>\<open>test_http_trigger_secret_retrieval_fails\<close> expects the request to
  fail.  The code does neither.  With a vault that does not hold the key, \<open>get_secret\<close>
  returns \<^verbatim>\<open>None\<close>, the f-string of line 29 formats it as the text \<^verbatim>\<open>None\<close>, the GET goes
  to \<^verbatim>\<open>.../flights?key=None\<close>, no GET goes to \<^verbatim>\<open>.../flights?key=\<close>, and the trigger
  stores the answer and returns 200.
\<close>

theorem absent_secret_sends_None:
  "fst (get_secret scenario_secret_absent ''api-key'' process_start) = Inr None \<and>
   calls (snd (http_trigger scenario_secret_absent trigger_request process_start)) =
     [SecretGet ''https://test-vault.vault.azure.net/'' ''api-key'',
      HttpGet ''https://api.example.com/flights?key=None'',
      BlobUpload ''https://teststorage.blob.core.windows.net'' ''test-container''
        ''flights/20231110T120000Z.json'' flights_json] \<and>
   HttpGet ''https://api.example.com/flights?key='' \<notin>
     set (calls (snd (http_trigger scenario_secret_absent trigger_request process_start))) \<and>
   fst (http_trigger scenario_secret_absent trigger_request process_start) =
     Inr \<lparr>status_code = 200,
          body = ''Data saved successfully to test-container/flights/20231110T120000Z.json''\<rparr>"
  by (simp add: world_defs scenario_secret_absent_def run_defs)

text \<open>
  Claim C4, amended.  With \<^verbatim>\<open>KEY_VAULT_URL\<close> missing and no client cached,
  \<open>get_secret_client\<close> raises \<^verbatim>\<open>KeyError('KEY_VAULT_URL')\<close> to its caller and caches
  nothing; when it is \<open>get_secret\<close> that triggers the construction, the error is caught there
  and \<open>get_secret\<close> returns \<^verbatim>\<open>None\<close>.
\<close>

theorem missing_vault_url:
  assumes "environ w ''KEY_VAULT_URL'' = None" and "secret_client_cache st = None"
  shows "get_secret_client w st = (Inl (Exn KeyError (py_repr ''KEY_VAULT_URL'')), st) \<and>
         get_secret w name st = (Inr None, st)"
proof -
  have c: "get_secret_client w st = (Inl (Exn KeyError (py_repr ''KEY_VAULT_URL'')), st)"
    using assms by (simp add: get_secret_client_def environ_getitem_def)
  then show ?thesis
    by (simp add: get_secret_def get_secret_body_def is_Exception_always)
qed

theorem missing_vault_url_witness:
  "get_secret_client scenario_no_vault process_start =
     (Inl (Exn KeyError (py_repr ''KEY_VAULT_URL'')), process_start) \<and>
   get_secret scenario_no_vault ''api-key'' process_start = (Inr None, process_start)"
proof -
  have a1: "environ scenario_no_vault ''KEY_VAULT_URL'' = None"
    and a2: "secret_client_cache process_start = None"
    by (simp_all add: world_defs scenario_no_vault_def)
  show ?thesis by (rule missing_vault_url [OF a1 a2])
qed

text \<open>
  Claim C4 as written has the error propagate also through \<open>get_secret\<close>.  In a fresh
  process without \<^verbatim>\<open>KEY_VAULT_URL\<close> the client's construction raises, and \<open>get_secret\<close>
  returns \<^verbatim>\<open>None\<close>.
\<close>

theorem get_secret_recovers_counterexample:
  "environ scenario_no_vault ''KEY_VAULT_URL'' = None \<and>
   secret_client_cache process_start = None \<and>
   fst (get_secret_client scenario_no_vault process_start) =
     Inl (Exn KeyError (CHR 0x27 # ''KEY_VAULT_URL'' @ [CHR 0x27])) \<and>
   fst (get_secret scenario_no_vault ''api-key'' process_start) = Inr None"
  by (simp add: world_defs scenario_no_vault_def run_defs)

text \<open>
  Claim C7.  The claim has every exception of the storage stage answered with 500 and the
  text \<^verbatim>\<open>Failed to save data to storage: \<close> followed by \<^verbatim>\<open>str(e)\<close>.  The handler builds that
  response outside any \<^verbatim>\<open>try\<close> (line 57), and the constructor of the response encodes its
  body.  When the upload raises an exception whose text cannot be encoded (here the lone
  surrogate \<^verbatim>\<open>'\udc80'\<close>), no response is returned: \<^verbatim>\<open>UnicodeEncodeError\<close> leaves the trigger
  after the upload was attempted.
\<close>

theorem storage_handler_raises:
  "upload_blob scenario_upload_fails_surrogate ''https://teststorage.blob.core.windows.net''
     ''test-container'' ''flights/20231110T120000Z.json'' flights_json =
     Some (Exn OtherException [CHR 0x80]) \<and>
   calls (snd (http_trigger scenario_upload_fails_surrogate trigger_request process_start)) =
     [SecretGet ''https://test-vault.vault.azure.net/'' ''api-key'',
      HttpGet ''https://api.example.com/flights?key=test-api-key'',
      BlobUpload ''https://teststorage.blob.core.windows.net'' ''test-container''
        ''flights/20231110T120000Z.json'' flights_json] \<and>
   fst (http_trigger scenario_upload_fails_surrogate trigger_request process_start) =
     Inl (unicode_encode_error (''Failed to save data to storage: '' @ [CHR 0x80])) \<and>
   msg (unicode_encode_error (''Failed to save data to storage: '' @ [CHR 0x80])) =
     [CHR 0x27] @ ''utf-8'' @ [CHR 0x27] @ '' codec can'' @ [CHR 0x27] @ ''t encode character ''
     @ [CHR 0x27, CHR 0x5C] @ ''udc80'' @ [CHR 0x27] @ '' in position 32: surrogates not allowed''"
proof -
  have m: "msg (unicode_encode_error (''Failed to save data to storage: '' @ [CHR 0x80])) =
     [CHR 0x27] @ ''utf-8'' @ [CHR 0x27] @ '' codec can'' @ [CHR 0x27] @ ''t encode character ''
     @ [CHR 0x27, CHR 0x5C] @ ''udc80'' @ [CHR 0x27] @ '' in position 32: surrogates not allowed''"
    by (simp add: unicode_encode_error_def surrogate_escape_def hex_digit_def digit_def
          encodable_char_def Let_def)
  have t: "upload_blob scenario_upload_fails_surrogate ''https://teststorage.blob.core.windows.net''
     ''test-container'' ''flights/20231110T120000Z.json'' flights_json =
     Some (Exn OtherException [CHR 0x80]) \<and>
   calls (snd (http_trigger scenario_upload_fails_surrogate trigger_request process_start)) =
     [SecretGet ''https://test-vault.vault.azure.net/'' ''api-key'',
      HttpGet ''https://api.example.com/flights?key=test-api-key'',
      BlobUpload ''https://teststorage.blob.core.windows.net'' ''test-container''
        ''flights/20231110T120000Z.json'' flights_json] \<and>
   fst (http_trigger scenario_upload_fails_surrogate trigger_request process_start) =
     Inl (unicode_encode_error (''Failed to save data to storage: '' @ [CHR 0x80]))"
    by (simp add: world_defs scenario_upload_fails_surrogate_def run_defs)
  from t m show ?thesis by blast
qed

text \<open>
  Where the text of the exception can be encoded the handler does answer as the claim says,
  whichever step of the storage stage raised.
\<close>

lemma storage_failure_reported:
  assumes "environ w ''API_URL'' = Some api_url"
    and "environ w ''ADLS_FILE_SYSTEM'' = Some container"
    and "fst (get_secret w ''api-key'' st) = Inr api_key"
    and "fetch_stage w (api_url @ ''/flights?key='' @ py_format api_key)
           (snd (get_secret w ''api-key'' st)) = (Inr data, st2)"
    and "fst (persist_stage w container (getenv (environ w) ''ADLS_PATH_PREFIX'' ''flights'')
           data st2) = Inl e"
    and "utf8_encodable (msg e)"
  shows "fst (http_trigger w req st) =
           Inr \<lparr>status_code = 500, body = ''Failed to save data to storage: '' @ msg e\<rparr>"
proof -
  let ?p = "getenv (environ w) ''ADLS_PATH_PREFIX'' ''flights''"
  obtain st3 where p: "persist_stage w container ?p data st2 = (Inl e, st3)"
    using assms(5) by (cases "persist_stage w container ?p data st2") simp
  have "utf8_encodable (''Failed to save data to storage: '' @ msg e)"
    using assms(6) by (simp add: utf8_encodable_append) (simp add: utf8_encodable_def encodable_char_def)
  then have "HttpResponse (''Failed to save data to storage: '' @ msg e) 500 =
          Inr \<lparr>status_code = 500, body = ''Failed to save data to storage: '' @ msg e\<rparr>"
    by (rule HttpResponse_ok)
  then show ?thesis
    using http_trigger_configured [OF assms(1,2,3), of req] assms(4) p by simp
qed

text \<open>
  Claim C9, amended.  For every request, environment and process state and every outcome of
  the vault: if the fetch stage (making the HTTP client, the GET) fails only with
  \<^verbatim>\<open>httpx.HTTPError\<close>, the one class its handler catches, and every exception that the
  storage stage can receive from the identity chain or the store has a text that can be
  encoded, the trigger returns a response, and its status is 200, 500 or 502.
\<close>

theorem http_trigger_status_codes:
  assumes "\<And>e. http_client_ctor w = Some e \<Longrightarrow> is_HTTPError e"
    and "\<And>u e. http_get w u = Inl e \<Longrightarrow> is_HTTPError e"
    and "\<And>n x. credential_ctor w n = Some x \<Longrightarrow> utf8_encodable (msg x)"
    and "\<And>a x. blob_service_ctor w a = Some x \<Longrightarrow> utf8_encodable (msg x)"
    and "\<And>a c x. get_container_client w a c = Some x \<Longrightarrow> utf8_encodable (msg x)"
    and "\<And>a c b x. get_blob_client w a c b = Some x \<Longrightarrow> utf8_encodable (msg x)"
    and "\<And>a c b d x. upload_blob w a c b d = Some x \<Longrightarrow> utf8_encodable (msg x)"
  shows "\<exists>r. fst (http_trigger w req st) = Inr r \<and>
             (status_code r = 200 \<or> status_code r = 500 \<or> status_code r = 502)"
proof (cases "environ w ''API_URL'' = None \<or> environ w ''ADLS_FILE_SYSTEM'' = None")
  case True
  have "HttpResponse (''Configuration error: Missing '' @ py_repr ''API_URL'') 500 =
          Inr \<lparr>status_code = 500, body = ''Configuration error: Missing '' @ py_repr ''API_URL''\<rparr>"
    and "HttpResponse (''Configuration error: Missing '' @ py_repr ''ADLS_FILE_SYSTEM'') 500 =
          Inr \<lparr>status_code = 500,
               body = ''Configuration error: Missing '' @ py_repr ''ADLS_FILE_SYSTEM''\<rparr>"
    by (rule HttpResponse_ok, simp add: py_repr_def utf8_encodable_def encodable_char_def)+
  with True show ?thesis
    by (auto simp: http_trigger_def environ_getitem_def config_error_def is_KeyError_def
             split: option.splits)
next
  case False
  then obtain api_url container where a: "environ w ''API_URL'' = Some api_url"
    and c: "environ w ''ADLS_FILE_SYSTEM'' = Some container" by auto
  obtain api_key where k: "fst (get_secret w ''api-key'' st) = Inr api_key"
    by (simp add: get_secret_fst)
  let ?url = "api_url @ ''/flights?key='' @ py_format api_key"
  let ?st1 = "snd (get_secret w ''api-key'' st)"
  let ?p = "getenv (environ w) ''ADLS_PATH_PREFIX'' ''flights''"
  note t = http_trigger_configured [OF a c k, of req]
  obtain res st2 where f: "fetch_stage w ?url ?st1 = (res, st2)"
    by (cases "fetch_stage w ?url ?st1")
  show ?thesis
  proof (cases res)
    case (Inl e)
    then have "http_client_ctor w = Some e \<or> http_get w ?url = Inl e \<or>
               e = Exn HTTPError ''HTTP status error''"
      using fetch_stage_Inl [of w ?url ?st1 e] f by simp
    then have "is_HTTPError e" using assms(1,2) by (auto simp: is_HTTPError_def)
    then show ?thesis using t f Inl by (simp add: fetch_failed_response)
  next
    case (Inr data)
    obtain res3 st3 where p: "persist_stage w container ?p data st2 = (res3, st3)"
      by (cases "persist_stage w container ?p data st2")
    show ?thesis
    proof (cases res3)
      case (Inl e)
      then have "fst (persist_stage w container ?p data st2) = Inl e" using p by simp
      then have "utf8_encodable (msg e)"
        using assms(3,4,5,6,7) by (rule persist_stage_Inl_text)
      then have "utf8_encodable (''Failed to save data to storage: '' @ msg e)"
        by (simp add: utf8_encodable_append) (simp add: utf8_encodable_def encodable_char_def)
      then have "HttpResponse (''Failed to save data to storage: '' @ msg e) 500 =
          Inr \<lparr>status_code = 500, body = ''Failed to save data to storage: '' @ msg e\<rparr>"
        by (rule HttpResponse_ok)
      then show ?thesis using t f p Inl \<open>res = Inr data\<close> by simp
    next
      case (Inr r)
      then have "status_code r = 200" using persist_stage_Inr [of w container ?p data st2 r] p by simp
      then show ?thesis using t f p Inr \<open>res = Inr data\<close> by simp
    qed
  qed
qed

theorem http_trigger_status_codes_witness:
  "(\<exists>r. fst (http_trigger scenario_fetch_fails trigger_request process_start) = Inr r \<and>
        (status_code r = 200 \<or> status_code r = 500 \<or> status_code r = 502)) \<and>
   (\<exists>r. fst (http_trigger scenario_upload_fails trigger_request process_start) = Inr r \<and>
        (status_code r = 200 \<or> status_code r = 500 \<or> status_code r = 502))"
proof -
  have f: "\<And>u e. http_get scenario_fetch_fails u = Inl e \<Longrightarrow> is_HTTPError e"
    by (auto simp: world_defs scenario_fetch_fails_def is_HTTPError_def)
  have u: "\<And>a c b d x. upload_blob scenario_upload_fails a c b d = Some x \<Longrightarrow> utf8_encodable (msg x)"
    by (auto simp: world_defs scenario_upload_fails_def utf8_encodable_def encodable_char_def)
  have 1: "\<exists>r. fst (http_trigger scenario_fetch_fails trigger_request process_start) = Inr r \<and>
        (status_code r = 200 \<or> status_code r = 500 \<or> status_code r = 502)"
    by (rule http_trigger_status_codes [OF _ f])
       (simp_all add: world_defs scenario_fetch_fails_def)
  have 2: "\<exists>r. fst (http_trigger scenario_upload_fails trigger_request process_start) = Inr r \<and>
        (status_code r = 200 \<or> status_code r = 500 \<or> status_code r = 502)"
    by (rule http_trigger_status_codes [OF _ _ _ _ _ _ u])
       (simp_all add: world_defs scenario_upload_fails_def)
  from 1 2 show ?thesis by blast
qed

text \<open>
  Claim C9 as written holds for every outcome of the remote API.  When the GET raises an
  exception outside \<^verbatim>\<open>httpx.HTTPError\<close> (httpx raises \<^verbatim>\<open>InvalidURL\<close> for a malformed URL),
  the handler of the fetch stage does not match and the exception leaves the trigger.
\<close>

theorem http_trigger_propagates_counterexample:
  "http_get scenario_invalid_url ''https://api.example.com/flights?key=test-api-key'' =
     Inl (Exn OtherException ''Invalid port'') \<and>
   fst (http_trigger scenario_invalid_url trigger_request process_start) =
     Inl (Exn OtherException ''Invalid port'')"
  by (simp add: world_defs scenario_invalid_url_def run_defs)




end
